theory Spec2Isabelle
  imports Complex_Main
begin

section \<open>Data model\<close>

text \<open>
  Both bot variants (\<^verbatim>\<open>telegram_otc_bot.py\<close> and \<^verbatim>\<open>telegram_otc_bot_fixed.py\<close>) declare the
  same dataclass \<^verbatim>\<open>CandleData\<close>. Prices are Python floats; a price is modelled as the real
  number that the (finite) double denotes, so comparisons of prices are exact. The timestamp
  is a Python int. The field \<^verbatim>\<open>open\<close> is called \<open>open_price\<close> because \<open>open\<close> is a constant
  of the library.
\<close>

record CandleData =
  open_price :: real
  high :: real
  low :: real
  close :: real
  timestamp :: int

text \<open>The exceptions a list index or a division can raise in the functions below.\<close>

datatype py_error = IndexError | ZeroDivisionError

text \<open>\<^verbatim>\<open>xs[-k]\<close> for \<open>k \<ge> 1\<close>: the \<open>k\<close>-th element from the end, IndexError when there is none.\<close>

definition from_end :: "'a list \<Rightarrow> nat \<Rightarrow> py_error + 'a" where
  "from_end xs k =
     (if 1 \<le> k \<and> k \<le> length xs then Inr (xs ! (length xs - k)) else Inl IndexError)"

text \<open>\<^verbatim>\<open>xs[0]\<close>, which raises on the empty list.\<close>

definition first :: "'a list \<Rightarrow> py_error + 'a" where
  "first xs = (if xs = [] then Inl IndexError else Inr (xs ! 0))"

text \<open>\<^verbatim>\<open>xs[-n:]\<close>: the last \<open>n\<close> elements, all of them when there are fewer; \<^verbatim>\<open>xs[-0:]\<close> is \<open>xs\<close>.\<close>

definition last_n :: "nat \<Rightarrow> 'a list \<Rightarrow> 'a list" where
  "last_n n xs = (if n = 0 then xs else drop (length xs - n) xs)"

text \<open>Sequencing of steps that may raise: the first exception ends the computation.\<close>

definition and_then :: "py_error + 'a \<Rightarrow> ('a \<Rightarrow> py_error + 'b) \<Rightarrow> py_error + 'b" where
  "and_then m f = (case m of Inl e \<Rightarrow> Inl e | Inr x \<Rightarrow> f x)"

text \<open>
  The momentum branch of \<^verbatim>\<open>score_pair\<close> computes with doubles, and its result depends on
  rounding, on overflow to infinity and on NaN. That arithmetic is not replaced by the
  arithmetic of the reals: the operations are a parameter, over a type \<open>'f\<close> of the values a
  computation with doubles can produce, and nothing is assumed about them. \<open>f_lit\<close> is the
  double that a literal or an int denotes, \<open>f_sub\<close> the difference of two prices, \<open>f_sum\<close> the
  builtin \<^verbatim>\<open>sum\<close> of a sequence of doubles, \<open>f_div_int\<close> the division of a double by a positive
  int, and \<open>f_positive x\<close> the test \<^verbatim>\<open>x > 0\<close>.
\<close>

record 'f float_ops =
  f_lit :: "real \<Rightarrow> 'f"
  f_sub :: "real \<Rightarrow> real \<Rightarrow> 'f"
  f_add :: "'f \<Rightarrow> 'f \<Rightarrow> 'f"
  f_mul :: "'f \<Rightarrow> 'f \<Rightarrow> 'f"
  f_sum :: "'f list \<Rightarrow> 'f"
  f_div_int :: "'f \<Rightarrow> nat \<Rightarrow> 'f"
  f_abs :: "'f \<Rightarrow> 'f"
  f_positive :: "'f \<Rightarrow> bool"

text \<open>
  The state of the bot object that the functions below read or write (the fields set in
  \<^verbatim>\<open>__init__\<close> of \<^verbatim>\<open>telegram_otc_bot.py\<close>, lines 93 to 101).
\<close>

record bot =
  min_volatility_threshold :: real
  win_count :: int
  loss_count :: int
  base_stake :: real
  current_stake :: real
  martingale_factor :: real
  in_martingale_sequence :: bool

section \<open>Fetching candles\<close>

text \<open>
  \<^verbatim>\<open>get_candles_for_pair\<close> (and its copy \<^verbatim>\<open>get_candles\<close> in the fixed variant) asks the external
  client for raw candles and keeps the last \<open>limit\<close> of them. The client's answer is an input
  of the model: \<open>None\<close> stands for every path on which the function returns \<^verbatim>\<open>None\<close> before it
  looks at the data (no client, an exception caught by the \<^verbatim>\<open>except\<close> clause), \<open>Some cs\<close> is
  the converted list \<^verbatim>\<open>candles_raw\<close>. An empty answer is falsy and gives \<^verbatim>\<open>None\<close> too.
\<close>

definition get_candles_for_pair :: "CandleData list option \<Rightarrow> nat \<Rightarrow> CandleData list option" where
  "get_candles_for_pair candles_raw limit =
     (case candles_raw of
        None \<Rightarrow> None
      | Some cs \<Rightarrow> if cs = [] then None else Some (last_n limit cs))"

definition get_candles :: "CandleData list option \<Rightarrow> nat \<Rightarrow> CandleData list option" where
  "get_candles candles_raw count =
     (case candles_raw of
        None \<Rightarrow> None
      | Some cs \<Rightarrow> if cs = [] then None else Some (last_n count cs))"

section \<open>Signal detection\<close>

text \<open>
  The body of the loop that fills \<^verbatim>\<open>directions\<close> (lines 182 to 188 of \<^verbatim>\<open>score_pair\<close>, lines 118
  to 124 of \<^verbatim>\<open>analyze_reversal\<close>), and the list it builds.
\<close>

definition bar_direction :: "CandleData \<Rightarrow> string" where
  "bar_direction candle =
     (if close candle > open_price candle then ''CALL''
      else if close candle < open_price candle then ''PUT''
      else ''NEUTRAL'')"

definition directions_of :: "CandleData list \<Rightarrow> string list" where
  "directions_of candles = map bar_direction candles"

text \<open>
  The test \<^verbatim>\<open>len(set(directions)) == 1 and directions[0] != "NEUTRAL"\<close>; the index is only
  evaluated when the first conjunct holds.
\<close>

definition same_direction :: "string list \<Rightarrow> py_error + bool" where
  "same_direction directions =
     (if card (set directions) = 1
      then and_then (first directions) (\<lambda>d. Inr (d \<noteq> ''NEUTRAL''))
      else Inr False)"

text \<open>
  The \<^verbatim>\<open>else\<close> branch of \<^verbatim>\<open>score_pair\<close> (lines 198 to 202): score and direction, in the
  arithmetic \<open>fa\<close>. The division raises when the list is empty.
\<close>

definition momentum_logic :: "'f float_ops \<Rightarrow> CandleData list \<Rightarrow> py_error + ('f \<times> string)" where
  "momentum_logic fa candles =
     (let candle_changes = map (\<lambda>c. f_sub fa (close c) (open_price c)) candles in
      and_then (from_end candle_changes 1) (\<lambda>ch1.
      and_then (from_end candle_changes 2) (\<lambda>ch2.
        let momentum = f_add fa (f_mul fa (f_lit fa 0.6) ch1) (f_mul fa (f_lit fa 0.4) ch2) in
        if length candles = 0 then Inl ZeroDivisionError
        else
          let volatility =
                f_div_int fa (f_sum fa (map (\<lambda>c. f_sub fa (high c) (low c)) candles))
                  (length candles);
              direction_score = f_mul fa (f_abs fa momentum) volatility;
              direction = (if f_positive fa momentum then ''CALL'' else ''PUT'')
          in Inr (direction_score, direction))))"

text \<open>
  \<^verbatim>\<open>score_pair\<close>. The score is a double: the literal 0.0 for a short window, the literal 100.0
  for a reversal, the computed score otherwise. The price is the close of the last candle, or
  the literal 0.0 for a short window.
\<close>

definition score_pair :: "'f float_ops \<Rightarrow> CandleData list \<Rightarrow> py_error + ('f \<times> string \<times> real)" where
  "score_pair fa candles =
     (if length candles < 4 then Inr (f_lit fa 0.0, ''NONE'', 0.0)
      else
        let directions = directions_of candles in
        and_then (same_direction directions) (\<lambda>reversal.
        and_then
          (if reversal
           then and_then (first directions) (\<lambda>d.
                  Inr (f_lit fa 100.0, if d = ''CALL'' then ''PUT'' else ''CALL''))
           else momentum_logic fa candles)
          (\<lambda>(direction_score, direction).
        and_then (from_end candles 1) (\<lambda>c.
          Inr (direction_score, direction, close c)))))"

definition analyze_reversal :: "CandleData list \<Rightarrow> py_error + (string \<times> real) option" where
  "analyze_reversal candles =
     (if length candles < 4 then Inr None
      else
        let directions = directions_of candles in
        and_then (same_direction directions) (\<lambda>reversal.
          if reversal
          then and_then (first directions) (\<lambda>d.
                 let reversal_direction = (if d = ''CALL'' then ''PUT'' else ''CALL'') in
                 and_then (from_end candles 1) (\<lambda>c.
                   Inr (Some (reversal_direction, close c))))
          else Inr None))"


section \<open>Outcome evaluation, martingale variant\<close>

text \<open>
  \<^verbatim>\<open>check_trade_result\<close> fetches two candles and looks for the first one whose timestamp is
  within 60 seconds of the entry timestamp (lines 308 to 312); without one it takes the last
  candle (lines 314 and 315; an instance of the dataclass is always truthy, so the test
  \<^verbatim>\<open>not trade_candle\<close> holds exactly when the loop found nothing).
\<close>

definition find_trade_candle :: "CandleData list \<Rightarrow> int \<Rightarrow> py_error + CandleData" where
  "find_trade_candle candles entry_timestamp =
     (case find (\<lambda>candle. \<bar>timestamp candle - entry_timestamp\<bar> \<le> 60) candles of
        Some trade_candle \<Rightarrow> Inr trade_candle
      | None \<Rightarrow> from_end candles 1)"

definition check_trade_result :: "CandleData list option \<Rightarrow> string \<Rightarrow> int \<Rightarrow> py_error + string" where
  "check_trade_result candles_raw direction entry_timestamp =
     (case get_candles_for_pair candles_raw 2 of
        None \<Rightarrow> Inr ''LOSS''
      | Some candles \<Rightarrow>
          if candles = [] then Inr ''LOSS''
          else
            and_then (find_trade_candle candles entry_timestamp) (\<lambda>trade_candle.
              let entry_price = open_price trade_candle;
                  close_price = close trade_candle;
                  is_win = (if direction = ''CALL'' then close_price > entry_price
                            else close_price < entry_price)
              in Inr (if is_win then ''WIN'' else ''LOSS'')))"

text \<open>
  What an evaluation does to the outside, in order: the two log lines that report a phase and
  its stake, the waits, the fetches, and the messages sent.
\<close>

datatype event =
    Initial_trade string string real
  | Sleep nat
  | Fetch nat
  | Mtg_trade string string real
  | Mtg_message string string real
  | Result_message string int int
  | Signal_log string string string

text \<open>
  \<^verbatim>\<open>evaluate_signal_result\<close>. The inputs beside the bot, the pair and the direction are what the
  outside supplies during the call: the clock reading \<^verbatim>\<open>int(time.time())\<close> and the client's
  answer to the fetch, for the initial phase and for the martingale phase. The result is the
  bot afterwards, the value of \<^verbatim>\<open>result\<close>, and the events in order.
  \<^verbatim>\<open>format_result_message\<close> reads the counters, so the message event carries them.
\<close>

definition evaluate_signal_result ::
    "bot \<Rightarrow> string \<Rightarrow> string \<Rightarrow> int \<Rightarrow> CandleData list option \<Rightarrow> int \<Rightarrow> CandleData list option
       \<Rightarrow> py_error + (bot \<times> string \<times> event list)" where
  "evaluate_signal_result self pair direction initial_timestamp raw1 mtg_timestamp raw2 =
     (let s1 = self\<lparr>current_stake := base_stake self, in_martingale_sequence := True\<rparr>;
          ev1 = [Initial_trade pair direction (current_stake s1), Sleep 65, Fetch 2]
      in
      and_then (check_trade_result raw1 direction initial_timestamp) (\<lambda>initial_result.
        if initial_result = ''WIN''
        then
          let result = ''WIN'';
              s2 = s1\<lparr>win_count := win_count s1 + 1\<rparr>;
              s3 = s2\<lparr>in_martingale_sequence := False, current_stake := base_stake s2\<rparr>
          in Inr (s3, result,
                  ev1 @ [Result_message result (win_count s3) (loss_count s3),
                         Signal_log pair direction result])
        else
          let s2 = s1\<lparr>current_stake := base_stake s1 * martingale_factor s1\<rparr>;
              ev2 = ev1 @ [Mtg_trade pair direction (current_stake s2),
                           Mtg_message pair direction (current_stake s2), Sleep 65, Fetch 2]
          in
          and_then (check_trade_result raw2 direction mtg_timestamp) (\<lambda>mtg_result.
            let (result, s3) =
                  (if mtg_result = ''WIN''
                   then (''MTG WIN'', s2\<lparr>win_count := win_count s2 + 1\<rparr>)
                   else (''LOSS'', s2\<lparr>loss_count := loss_count s2 + 1\<rparr>));
                s4 = s3\<lparr>in_martingale_sequence := False, current_stake := base_stake s3\<rparr>
            in Inr (s4, result,
                    ev2 @ [Result_message result (win_count s4) (loss_count s4),
                           Signal_log pair direction result]))))"

section \<open>Outcome evaluation, fixed variant\<close>

text \<open>
  \<^verbatim>\<open>evaluate_result\<close> of \<^verbatim>\<open>telegram_otc_bot_fixed.py\<close>: the win test of lines 176 to 177 and 189
  to 190, and the function. Its inputs are the client's answers to the two fetches; the result
  is the returned string and the events in order.
\<close>

definition candle_wins :: "string \<Rightarrow> CandleData \<Rightarrow> bool" where
  "candle_wins direction candle =
     ((direction = ''CALL'' \<and> close candle > open_price candle) \<or>
      (direction = ''PUT'' \<and> close candle < open_price candle))"

definition evaluate_result ::
    "string \<Rightarrow> CandleData list option \<Rightarrow> CandleData list option \<Rightarrow> py_error + (string \<times> event list)" where
  "evaluate_result direction raw1 raw2 =
     (let ev1 = [Sleep 60, Fetch 1] in
      case get_candles raw1 1 of
        None \<Rightarrow> Inr (''ERROR'', ev1)
      | Some candles \<Rightarrow>
          if candles = [] then Inr (''ERROR'', ev1)
          else
            and_then (first candles) (\<lambda>candle.
              if candle_wins direction candle then Inr (''WIN'', ev1)
              else
                let ev2 = ev1 @ [Sleep 60, Fetch 1] in
                (case get_candles raw2 1 of
                   None \<Rightarrow> Inr (''LOSS'', ev2)
                 | Some candles2 \<Rightarrow>
                     if candles2 = [] then Inr (''LOSS'', ev2)
                     else
                       and_then (first candles2) (\<lambda>candle2.
                         if candle_wins direction candle2 then Inr (''MG WIN'', ev2)
                         else Inr (''LOSS'', ev2)))))"

text \<open>The number of phases an evaluation went through: one fetch of candles per phase.\<close>

definition phases :: "event list \<Rightarrow> nat" where
  "phases evs = length (filter (\<lambda>e. case e of Fetch _ \<Rightarrow> True | _ \<Rightarrow> False) evs)"

definition waits :: "event list \<Rightarrow> nat list" where
  "waits evs = concat (map (\<lambda>e. case e of Sleep n \<Rightarrow> [n] | _ \<Rightarrow> []) evs)"

definition martingale_entries :: "event list \<Rightarrow> real list" where
  "martingale_entries evs = concat (map (\<lambda>e. case e of Mtg_trade _ _ x \<Rightarrow> [x] | _ \<Rightarrow> []) evs)"

section \<open>Example inputs\<close>

text \<open>
  Scenario A of the specification (four rising bars), four falling bars, scenario A with a
  falling last bar, a window of rising bars whose two middle bars are flat, and a bot as
  \<^verbatim>\<open>__init__\<close> leaves it except for a stake left over from elsewhere. The examples are
  evaluated in \<open>exact_arith\<close>, the arithmetic without rounding; the theorems hold for every
  arithmetic.
\<close>

definition exact_arith :: "real float_ops" where
  "exact_arith =
     \<lparr>f_lit = (\<lambda>x. x), f_sub = (\<lambda>x y. x - y), f_add = (\<lambda>x y. x + y), f_mul = (\<lambda>x y. x * y),
      f_sum = sum_list, f_div_int = (\<lambda>x n. x / real n), f_abs = (\<lambda>x. \<bar>x\<bar>),
      f_positive = (\<lambda>x. x > 0)\<rparr>"

definition scenario_A :: "CandleData list" where
  "scenario_A =
     [\<lparr>open_price = 1, high = 1.2, low = 0.9, close = 1.1, timestamp = 0\<rparr>,
      \<lparr>open_price = 1.1, high = 1.3, low = 1.0, close = 1.2, timestamp = 60\<rparr>,
      \<lparr>open_price = 1.2, high = 1.4, low = 1.1, close = 1.3, timestamp = 120\<rparr>,
      \<lparr>open_price = 1.3, high = 1.5, low = 1.2, close = 1.4, timestamp = 180\<rparr>]"

definition falling_window :: "CandleData list" where
  "falling_window =
     [\<lparr>open_price = 1.4, high = 1.5, low = 1.2, close = 1.3, timestamp = 0\<rparr>,
      \<lparr>open_price = 1.3, high = 1.4, low = 1.1, close = 1.2, timestamp = 60\<rparr>,
      \<lparr>open_price = 1.2, high = 1.3, low = 1.0, close = 1.1, timestamp = 120\<rparr>,
      \<lparr>open_price = 1.1, high = 1.2, low = 0.9, close = 1, timestamp = 180\<rparr>]"

definition mixed_window :: "CandleData list" where
  "mixed_window =
     [\<lparr>open_price = 1, high = 1.2, low = 0.9, close = 1.1, timestamp = 0\<rparr>,
      \<lparr>open_price = 1.1, high = 1.3, low = 1.0, close = 1.2, timestamp = 60\<rparr>,
      \<lparr>open_price = 1.2, high = 1.4, low = 1.1, close = 1.3, timestamp = 120\<rparr>,
      \<lparr>open_price = 1.3, high = 1.5, low = 1.2, close = 1.1, timestamp = 180\<rparr>]"

definition flat_window :: "CandleData list" where
  "flat_window =
     [\<lparr>open_price = 1, high = 1.2, low = 0.9, close = 1.1, timestamp = 0\<rparr>,
      \<lparr>open_price = 1.1, high = 1.3, low = 1.0, close = 1.1, timestamp = 60\<rparr>,
      \<lparr>open_price = 1.2, high = 1.4, low = 1.1, close = 1.2, timestamp = 120\<rparr>,
      \<lparr>open_price = 1.3, high = 1.5, low = 1.2, close = 1.5, timestamp = 180\<rparr>]"

definition fresh_bot :: bot where
  "fresh_bot =
     \<lparr>min_volatility_threshold = 0.00001, win_count = 0, loss_count = 0, base_stake = 1,
      current_stake = 7, martingale_factor = 2, in_martingale_sequence = False\<rparr>"

definition rising_bar :: CandleData where
  "rising_bar = \<lparr>open_price = 1.40, high = 1.5, low = 1.3, close = 1.45, timestamp = 100\<rparr>"

definition falling_bar :: CandleData where
  "falling_bar = \<lparr>open_price = 1.50, high = 1.6, low = 1.4, close = 1.45, timestamp = 160\<rparr>"

section \<open>Facts about the helpers\<close>

lemma from_end_last: "xs \<noteq> [] \<Longrightarrow> from_end xs (Suc 0) = Inr (last xs)"
  by (simp add: from_end_def last_conv_nth Suc_le_eq)

lemma card_set_one: "card (set ds) = 1 \<longleftrightarrow> ds \<noteq> [] \<and> (\<forall>x\<in>set ds. x = hd ds)"
proof
  assume h: "card (set ds) = 1"
  then obtain a where a: "set ds = {a}" by (auto simp: card_1_singleton_iff)
  then have ne: "ds \<noteq> []" by auto
  then have "hd ds \<in> set ds" by simp
  with a have "hd ds = a" by simp
  with a ne show "ds \<noteq> [] \<and> (\<forall>x\<in>set ds. x = hd ds)" by simp
next
  assume h: "ds \<noteq> [] \<and> (\<forall>x\<in>set ds. x = hd ds)"
  then have "set ds = {hd ds}" by (cases ds) auto
  then show "card (set ds) = 1" by simp
qed

lemma same_direction_eq:
  "same_direction ds = Inr (ds \<noteq> [] \<and> (\<forall>x\<in>set ds. x = hd ds) \<and> hd ds \<noteq> ''NEUTRAL'')"
  unfolding same_direction_def card_set_one
  by (cases ds) (auto simp: first_def and_then_def)

lemma same_direction_bars:
  "same_direction (directions_of candles) =
     Inr (candles \<noteq> [] \<and> (\<exists>d. d \<noteq> ''NEUTRAL'' \<and> (\<forall>c\<in>set candles. bar_direction c = d)))"
proof (cases candles)
  case Nil
  then show ?thesis by (simp add: same_direction_eq directions_of_def)
next
  case (Cons c cs)
  then show ?thesis
    by (auto simp: same_direction_eq directions_of_def)
qed

lemma first_directions:
  "candles \<noteq> [] \<Longrightarrow> first (directions_of candles) = Inr (bar_direction (hd candles))"
  by (cases candles) (simp_all add: first_def directions_of_def)

lemma momentum_logic_total:
  "2 \<le> length candles \<Longrightarrow> \<exists>r. momentum_logic fa candles = Inr r"
  by (auto simp: momentum_logic_def from_end_def and_then_def Let_def)

lemma bar_direction_call: "bar_direction c = ''CALL'' \<longleftrightarrow> close c > open_price c"
  by (simp add: bar_direction_def)

lemma bar_direction_put: "bar_direction c = ''PUT'' \<longleftrightarrow> close c < open_price c"
  by (auto simp: bar_direction_def)

lemma bar_direction_neutral: "bar_direction c = ''NEUTRAL'' \<longleftrightarrow> close c = open_price c"
  by (auto simp: bar_direction_def)

lemma reversal_by_direction:
  assumes "length candles = 4"
    and "d = ''CALL'' \<or> d = ''PUT''"
    and "\<forall>c\<in>set candles. bar_direction c = d"
  shows "score_pair fa candles =
           Inr (f_lit fa 100, (if d = ''CALL'' then ''PUT'' else ''CALL''), close (last candles)) \<and>
         analyze_reversal candles =
           Inr (Some ((if d = ''CALL'' then ''PUT'' else ''CALL''), close (last candles)))"
proof -
  from assms(1) have ne: "candles \<noteq> []" by auto
  then have "hd candles \<in> set candles" by simp
  with assms(3) have hd: "bar_direction (hd candles) = d" by simp
  from assms(2) have dn: "d \<noteq> ''NEUTRAL''" by auto
  with ne assms(3) have same: "same_direction (directions_of candles) = Inr True"
    unfolding same_direction_bars by auto
  from ne assms(1) same hd show ?thesis
    by (simp add: score_pair_def analyze_reversal_def and_then_def first_directions from_end_last)
qed

lemma no_reversal_by_direction:
  assumes "4 \<le> length candles"
    and "\<not> (\<exists>d. d \<noteq> ''NEUTRAL'' \<and> (\<forall>c\<in>set candles. bar_direction c = d))"
  shows "analyze_reversal candles = Inr None \<and>
         score_pair fa candles =
           and_then (momentum_logic fa candles)
             (\<lambda>(score, direction). Inr (score, direction, close (last candles)))"
proof -
  from assms(1) have ne: "candles \<noteq> []" and four: "\<not> length candles < 4" by auto
  from assms(2) have same: "same_direction (directions_of candles) = Inr False"
    unfolding same_direction_bars by simp
  from four ne same show ?thesis
    by (cases "momentum_logic fa candles")
      (auto simp: score_pair_def analyze_reversal_def and_then_def from_end_last)
qed

lemma last_n_nonempty:
  assumes "xs \<noteq> []"
  shows "last_n n xs \<noteq> []"
proof (cases xs)
  case Nil
  with assms show ?thesis by simp
next
  case (Cons a as)
  then show ?thesis by (auto simp: last_n_def)
qed

lemma get_candles_for_pair_None:
  "get_candles_for_pair raw n = None \<longleftrightarrow> raw = None \<or> raw = Some []"
  by (simp add: get_candles_for_pair_def split: option.splits)

lemma get_candles_for_pair_Some: "get_candles_for_pair raw n = Some cs \<Longrightarrow> cs \<noteq> []"
  by (auto simp: get_candles_for_pair_def last_n_nonempty split: option.splits if_splits)

lemma get_candles_None: "get_candles raw n = None \<longleftrightarrow> raw = None \<or> raw = Some []"
  by (simp add: get_candles_def split: option.splits)

lemma get_candles_Some: "get_candles raw n = Some cs \<Longrightarrow> cs \<noteq> []"
  by (auto simp: get_candles_def last_n_nonempty split: option.splits if_splits)

lemma find_trade_candle_total:
  "candles \<noteq> [] \<Longrightarrow> \<exists>bar. find_trade_candle candles e = Inr bar"
  by (simp add: find_trade_candle_def from_end_last split: option.splits)

lemma check_trade_result_fetched:
  assumes "get_candles_for_pair raw 2 = Some candles"
    and "find_trade_candle candles e = Inr bar"
  shows "check_trade_result raw direction e =
           Inr (if (if direction = ''CALL'' then close bar > open_price bar
                    else close bar < open_price bar) then ''WIN'' else ''LOSS'')"
  using assms get_candles_for_pair_Some [OF assms(1)]
  by (simp add: check_trade_result_def and_then_def)

lemma check_trade_result_failed:
  "get_candles_for_pair raw 2 = None \<Longrightarrow> check_trade_result raw direction e = Inr ''LOSS''"
  by (simp add: check_trade_result_def)

lemma check_trade_result_cases:
  "check_trade_result raw direction e = Inr ''WIN'' \<or>
   check_trade_result raw direction e = Inr ''LOSS''"
proof (cases "get_candles_for_pair raw 2")
  case None
  then show ?thesis by (simp add: check_trade_result_failed)
next
  case (Some candles)
  then have "candles \<noteq> []" by (rule get_candles_for_pair_Some)
  then obtain bar where "find_trade_candle candles e = Inr bar"
    using find_trade_candle_total by blast
  with Some show ?thesis by (simp add: check_trade_result_fetched)
qed

lemma evaluate_signal_result_win:
  assumes "check_trade_result raw1 direction t1 = Inr ''WIN''"
  shows "evaluate_signal_result self pair direction t1 raw1 t2 raw2 =
     Inr (self\<lparr>win_count := win_count self + 1, current_stake := base_stake self,
               in_martingale_sequence := False\<rparr>,
          ''WIN'',
          [Initial_trade pair direction (base_stake self), Sleep 65, Fetch 2,
           Result_message ''WIN'' (win_count self + 1) (loss_count self),
           Signal_log pair direction ''WIN''])"
  using assms by (simp add: evaluate_signal_result_def and_then_def Let_def)

lemma evaluate_signal_result_mtg_win:
  assumes "check_trade_result raw1 direction t1 = Inr ''LOSS''"
    and "check_trade_result raw2 direction t2 = Inr ''WIN''"
  shows "evaluate_signal_result self pair direction t1 raw1 t2 raw2 =
     Inr (self\<lparr>win_count := win_count self + 1, current_stake := base_stake self,
               in_martingale_sequence := False\<rparr>,
          ''MTG WIN'',
          [Initial_trade pair direction (base_stake self), Sleep 65, Fetch 2,
           Mtg_trade pair direction (base_stake self * martingale_factor self),
           Mtg_message pair direction (base_stake self * martingale_factor self),
           Sleep 65, Fetch 2,
           Result_message ''MTG WIN'' (win_count self + 1) (loss_count self),
           Signal_log pair direction ''MTG WIN''])"
  using assms by (simp add: evaluate_signal_result_def and_then_def Let_def)

lemma evaluate_signal_result_loss:
  assumes "check_trade_result raw1 direction t1 = Inr ''LOSS''"
    and "check_trade_result raw2 direction t2 = Inr ''LOSS''"
  shows "evaluate_signal_result self pair direction t1 raw1 t2 raw2 =
     Inr (self\<lparr>loss_count := loss_count self + 1, current_stake := base_stake self,
               in_martingale_sequence := False\<rparr>,
          ''LOSS'',
          [Initial_trade pair direction (base_stake self), Sleep 65, Fetch 2,
           Mtg_trade pair direction (base_stake self * martingale_factor self),
           Mtg_message pair direction (base_stake self * martingale_factor self),
           Sleep 65, Fetch 2,
           Result_message ''LOSS'' (win_count self) (loss_count self + 1),
           Signal_log pair direction ''LOSS''])"
  using assms by (simp add: evaluate_signal_result_def and_then_def Let_def)

lemmas evaluate_signal_result_paths =
  evaluate_signal_result_win evaluate_signal_result_mtg_win evaluate_signal_result_loss

lemma evaluate_result_error:
  "get_candles raw1 1 = None \<Longrightarrow>
   evaluate_result direction raw1 raw2 = Inr (''ERROR'', [Sleep 60, Fetch 1])"
  by (simp add: evaluate_result_def)

lemma evaluate_result_win:
  "get_candles raw1 1 = Some (c # cs) \<Longrightarrow> candle_wins direction c \<Longrightarrow>
   evaluate_result direction raw1 raw2 = Inr (''WIN'', [Sleep 60, Fetch 1])"
  by (simp add: evaluate_result_def first_def and_then_def)

lemma evaluate_result_second_failed:
  "get_candles raw1 1 = Some (c # cs) \<Longrightarrow> \<not> candle_wins direction c \<Longrightarrow>
   get_candles raw2 1 = None \<Longrightarrow>
   evaluate_result direction raw1 raw2 = Inr (''LOSS'', [Sleep 60, Fetch 1, Sleep 60, Fetch 1])"
  by (simp add: evaluate_result_def first_def and_then_def)

lemma evaluate_result_second:
  "get_candles raw1 1 = Some (c # cs) \<Longrightarrow> \<not> candle_wins direction c \<Longrightarrow>
   get_candles raw2 1 = Some (c2 # cs2) \<Longrightarrow>
   evaluate_result direction raw1 raw2 =
     Inr (if candle_wins direction c2 then ''MG WIN'' else ''LOSS'',
          [Sleep 60, Fetch 1, Sleep 60, Fetch 1])"
  by (simp add: evaluate_result_def first_def and_then_def)

lemma get_candles_cases:
  "get_candles raw n = None \<or> (\<exists>c cs. get_candles raw n = Some (c # cs))"
proof (cases "get_candles raw n")
  case None
  then show ?thesis by simp
next
  case (Some xs)
  with get_candles_Some [OF Some] show ?thesis by (cases xs) simp_all
qed

lemma evaluate_result_cases:
  "(get_candles raw1 1 = None \<and>
      evaluate_result direction raw1 raw2 = Inr (''ERROR'', [Sleep 60, Fetch 1])) \<or>
   (\<exists>c cs. get_candles raw1 1 = Some (c # cs) \<and> candle_wins direction c \<and>
      evaluate_result direction raw1 raw2 = Inr (''WIN'', [Sleep 60, Fetch 1])) \<or>
   (\<exists>c cs. get_candles raw1 1 = Some (c # cs) \<and> \<not> candle_wins direction c \<and>
      (evaluate_result direction raw1 raw2 =
         Inr (''MG WIN'', [Sleep 60, Fetch 1, Sleep 60, Fetch 1]) \<or>
       evaluate_result direction raw1 raw2 =
         Inr (''LOSS'', [Sleep 60, Fetch 1, Sleep 60, Fetch 1])))"
proof (cases "get_candles raw1 1")
  case None
  then show ?thesis by (simp add: evaluate_result_error)
next
  case (Some xs)
  from get_candles_Some [OF Some] obtain c cs where xs: "xs = c # cs" by (cases xs) simp_all
  with Some have g1: "get_candles raw1 1 = Some (c # cs)" by simp
  show ?thesis
  proof (cases "candle_wins direction c")
    case True
    with g1 show ?thesis by (simp add: evaluate_result_win)
  next
    case False
    show ?thesis
    proof (cases "get_candles raw2 1")
      case None
      with g1 False show ?thesis by (simp add: evaluate_result_second_failed)
    next
      case (Some ys)
      from get_candles_Some [OF Some] obtain c2 cs2 where "ys = c2 # cs2" by (cases ys) simp_all
      with Some have "get_candles raw2 1 = Some (c2 # cs2)" by simp
      with g1 False show ?thesis by (simp add: evaluate_result_second)
    qed
  qed
qed

section \<open>Signal detection: the claims\<close>

text \<open>
  Claim C1. A window of exactly four bars each of which closes above its open gives PUT, and
  a window of exactly four bars each of which closes below its open gives CALL, with the close
  of the last bar as reference price: in \<^verbatim>\<open>score_pair\<close> (with the score 100.0) and in
  \<^verbatim>\<open>analyze_reversal\<close>.
\<close>

theorem reversal_on_four_same_direction:
  assumes "length candles = 4"
  shows "((\<forall>c\<in>set candles. close c > open_price c) \<longrightarrow>
            score_pair fa candles = Inr (f_lit fa 100, ''PUT'', close (last candles)) \<and>
            analyze_reversal candles = Inr (Some (''PUT'', close (last candles)))) \<and>
         ((\<forall>c\<in>set candles. close c < open_price c) \<longrightarrow>
            score_pair fa candles = Inr (f_lit fa 100, ''CALL'', close (last candles)) \<and>
            analyze_reversal candles = Inr (Some (''CALL'', close (last candles))))"
proof (intro conjI impI)
  assume up: "\<forall>c\<in>set candles. close c > open_price c"
  then have calls: "\<forall>c\<in>set candles. bar_direction c = ''CALL''"
    by (simp add: bar_direction_call)
  from reversal_by_direction [OF assms _ calls, of fa]
  show "score_pair fa candles = Inr (f_lit fa 100, ''PUT'', close (last candles))"
    and "analyze_reversal candles = Inr (Some (''PUT'', close (last candles)))"
    by simp_all
next
  assume down: "\<forall>c\<in>set candles. close c < open_price c"
  then have puts: "\<forall>c\<in>set candles. bar_direction c = ''PUT''"
    by (simp add: bar_direction_put)
  from reversal_by_direction [OF assms _ puts, of fa]
  show "score_pair fa candles = Inr (f_lit fa 100, ''CALL'', close (last candles))"
    and "analyze_reversal candles = Inr (Some (''CALL'', close (last candles)))"
    by simp_all
qed

theorem reversal_on_four_same_direction_witness:
  "length scenario_A = 4 \<and>
   map (\<lambda>c. close c > open_price c) scenario_A = [True, True, True, True] \<and>
   score_pair exact_arith scenario_A = Inr (100, ''PUT'', 1.4) \<and>
   analyze_reversal scenario_A = Inr (Some (''PUT'', 1.4)) \<and>
   length falling_window = 4 \<and>
   map (\<lambda>c. close c < open_price c) falling_window = [True, True, True, True] \<and>
   score_pair exact_arith falling_window = Inr (100, ''CALL'', 1) \<and>
   analyze_reversal falling_window = Inr (Some (''CALL'', 1))"
proof -
  have up: "\<forall>c\<in>set scenario_A. close c > open_price c"
    and down: "\<forall>c\<in>set falling_window. close c < open_price c"
    by (simp_all add: scenario_A_def falling_window_def)
  have len: "length scenario_A = 4" "length falling_window = 4"
    by (simp_all add: scenario_A_def falling_window_def)
  from reversal_on_four_same_direction [OF len(1), of exact_arith] up
  have a: "score_pair exact_arith scenario_A = Inr (100, ''PUT'', 1.4)"
    "analyze_reversal scenario_A = Inr (Some (''PUT'', 1.4))"
    by (simp_all add: exact_arith_def) (simp_all add: scenario_A_def)
  from reversal_on_four_same_direction [OF len(2), of exact_arith] down
  have b: "score_pair exact_arith falling_window = Inr (100, ''CALL'', 1)"
    "analyze_reversal falling_window = Inr (Some (''CALL'', 1))"
    by (simp_all add: exact_arith_def) (simp_all add: falling_window_def)
  have c: "map (\<lambda>c. close c > open_price c) scenario_A = [True, True, True, True]"
    "map (\<lambda>c. close c < open_price c) falling_window = [True, True, True, True]"
    by (simp_all add: scenario_A_def falling_window_def)
  from len a b c show ?thesis by simp
qed

text \<open>
  Claim C6. A window that is shorter than four bars, or has a bar whose close equals its open
  (a NEUTRAL bar), or has a bar that closes above its open and another that closes below
  (mixed directions), gives no reversal signal and raises nothing: \<^verbatim>\<open>analyze_reversal\<close>
  returns \<^verbatim>\<open>None\<close>, and \<^verbatim>\<open>score_pair\<close> returns a triple that is the placeholder
  \<^verbatim>\<open>(0.0, "NONE", 0.0)\<close> for a short window and the result of the momentum branch otherwise.
\<close>

theorem no_reversal_signal:
  assumes "length candles < 4 \<or> (\<exists>c\<in>set candles. close c = open_price c) \<or>
           (\<exists>c\<in>set candles. \<exists>c'\<in>set candles.
              close c > open_price c \<and> close c' < open_price c')"
  shows "analyze_reversal candles = Inr None \<and>
         (\<exists>score direction price. score_pair fa candles = Inr (score, direction, price)) \<and>
         score_pair fa candles =
           (if length candles < 4 then Inr (f_lit fa 0, ''NONE'', 0)
            else and_then (momentum_logic fa candles)
                   (\<lambda>(score, direction). Inr (score, direction, close (last candles))))"
proof (cases "length candles < 4")
  case True
  then show ?thesis by (simp add: score_pair_def analyze_reversal_def)
next
  case False
  then have four: "4 \<le> length candles" and two: "2 \<le> length candles" by auto
  from assms False consider
      c where "c \<in> set candles" "close c = open_price c"
    | c c' where "c \<in> set candles" "c' \<in> set candles"
        "close c > open_price c" "close c' < open_price c'"
    by blast
  then have none: "\<not> (\<exists>d. d \<noteq> ''NEUTRAL'' \<and> (\<forall>c\<in>set candles. bar_direction c = d))"
  proof cases
    case 1
    then have "bar_direction c = ''NEUTRAL''" by (simp add: bar_direction_neutral)
    with 1(1) show ?thesis by auto
  next
    case 2
    then have "bar_direction c = ''CALL''" "bar_direction c' = ''PUT''"
      by (simp_all add: bar_direction_call bar_direction_put)
    with 2(1,2) show ?thesis by auto
  qed
  from momentum_logic_total [OF two, of fa] obtain sc dir
    where m: "momentum_logic fa candles = Inr (sc, dir)"
    by (metis surj_pair)
  from no_reversal_by_direction [OF four none, of fa] False m show ?thesis
    by (simp add: and_then_def)
qed

theorem no_reversal_signal_witness:
  "map (\<lambda>c. close c = open_price c) flat_window = [False, True, True, False] \<and>
   analyze_reversal flat_window = Inr None \<and>
   score_pair exact_arith flat_window = Inr (9 / 250, ''CALL'', 1.5) \<and>
   map (\<lambda>c. close c > open_price c) mixed_window = [True, True, True, False] \<and>
   map (\<lambda>c. close c < open_price c) mixed_window = [False, False, False, True] \<and>
   analyze_reversal mixed_window = Inr None \<and>
   score_pair exact_arith mixed_window = Inr (3 / 125, ''PUT'', 1.1) \<and>
   length [rising_bar, rising_bar, rising_bar] < 4 \<and>
   analyze_reversal [rising_bar, rising_bar, rising_bar] = Inr None \<and>
   score_pair exact_arith [rising_bar, rising_bar, rising_bar] = Inr (0, ''NONE'', 0)"
proof -
  have flat: "\<exists>c\<in>set flat_window. close c = open_price c"
    by (simp add: flat_window_def)
  have mixed: "\<exists>c\<in>set mixed_window. \<exists>c'\<in>set mixed_window.
      close c > open_price c \<and> close c' < open_price c'"
    by (simp add: mixed_window_def)
  have short: "length [rising_bar, rising_bar, rising_bar] < 4" by simp
  have mf: "momentum_logic exact_arith flat_window = Inr (9 / 250, ''CALL'')"
    by (simp add: flat_window_def momentum_logic_def and_then_def from_end_def exact_arith_def)
  have mm: "momentum_logic exact_arith mixed_window = Inr (3 / 125, ''PUT'')"
    by (simp add: mixed_window_def momentum_logic_def and_then_def from_end_def exact_arith_def)
  from no_reversal_signal [OF disjI2 [OF disjI1 [OF flat]], of exact_arith]
  have a: "analyze_reversal flat_window = Inr None"
    "score_pair exact_arith flat_window = Inr (9 / 250, ''CALL'', 1.5)"
    by (simp_all add: mf and_then_def) (simp_all add: flat_window_def)
  from no_reversal_signal [OF disjI2 [OF disjI2 [OF mixed]], of exact_arith]
  have b: "analyze_reversal mixed_window = Inr None"
    "score_pair exact_arith mixed_window = Inr (3 / 125, ''PUT'', 1.1)"
    by (simp_all add: mm and_then_def) (simp_all add: mixed_window_def)
  from no_reversal_signal [OF disjI1 [OF short], of exact_arith]
  have c: "analyze_reversal [rising_bar, rising_bar, rising_bar] = Inr None"
    "score_pair exact_arith [rising_bar, rising_bar, rising_bar] = Inr (0, ''NONE'', 0)"
    by (simp_all add: exact_arith_def)
  have d: "map (\<lambda>c. close c = open_price c) flat_window = [False, True, True, False]"
    "map (\<lambda>c. close c > open_price c) mixed_window = [True, True, True, False]"
    "map (\<lambda>c. close c < open_price c) mixed_window = [False, False, False, True]"
    by (simp_all add: flat_window_def mixed_window_def)
  from a b c d short show ?thesis by simp
qed



section \<open>Outcome evaluation: the claims\<close>

lemma check_rising_put: "check_trade_result (Some [rising_bar]) ''PUT'' 100 = Inr ''LOSS''"
  by (simp add: check_trade_result_def get_candles_for_pair_def last_n_def find_trade_candle_def
      and_then_def rising_bar_def)

lemma check_falling_put: "check_trade_result (Some [falling_bar]) ''PUT'' 165 = Inr ''WIN''"
  by (simp add: check_trade_result_def get_candles_for_pair_def last_n_def find_trade_candle_def
      and_then_def falling_bar_def)

text \<open>
  Claim C4. Every call of \<^verbatim>\<open>evaluate_signal_result\<close> completes and raises the sum of the two
  counters by exactly one: the win counter after a win of the initial phase or of the
  martingale phase (there is no third counter), the loss counter exactly when both phases
  lose; afterwards the current stake is the base stake.
\<close>

theorem tally_increments_once:
  "\<exists>s' result evs.
     evaluate_signal_result self pair direction t1 raw1 t2 raw2 = Inr (s', result, evs) \<and>
     win_count s' + loss_count s' = win_count self + loss_count self + 1 \<and>
     (result = ''WIN'' \<or> result = ''MTG WIN'' \<or> result = ''LOSS'') \<and>
     (result = ''WIN'' \<longleftrightarrow> check_trade_result raw1 direction t1 = Inr ''WIN'') \<and>
     (result = ''LOSS'' \<longleftrightarrow> check_trade_result raw1 direction t1 = Inr ''LOSS'' \<and>
                           check_trade_result raw2 direction t2 = Inr ''LOSS'') \<and>
     (result = ''WIN'' \<or> result = ''MTG WIN'' \<longrightarrow>
        win_count s' = win_count self + 1 \<and> loss_count s' = loss_count self) \<and>
     (result = ''LOSS'' \<longrightarrow>
        loss_count s' = loss_count self + 1 \<and> win_count s' = win_count self) \<and>
     current_stake s' = base_stake self \<and> base_stake s' = base_stake self"
  using check_trade_result_cases [of raw1 direction t1]
    check_trade_result_cases [of raw2 direction t2]
  by (auto simp: evaluate_signal_result_paths)

theorem tally_increments_once_witness:
  "check_trade_result (Some [rising_bar]) ''PUT'' 100 = Inr ''LOSS'' \<and>
   check_trade_result (Some [falling_bar]) ''PUT'' 165 = Inr ''WIN'' \<and>
   (\<exists>s' evs.
      evaluate_signal_result fresh_bot ''BTCUSD_otc'' ''PUT'' 100 (Some [rising_bar]) 165
        (Some [falling_bar]) = Inr (s', ''MTG WIN'', evs) \<and>
      win_count s' = win_count fresh_bot + 1 \<and> loss_count s' = loss_count fresh_bot \<and>
      current_stake s' = base_stake fresh_bot)"
  using tally_increments_once [of fresh_bot "''BTCUSD_otc''" "''PUT''" 100 "Some [rising_bar]" 165
      "Some [falling_bar]"]
  unfolding evaluate_signal_result_mtg_win [OF check_rising_put check_falling_put]
  by (simp add: check_rising_put check_falling_put)

text \<open>
  Claim C5. An evaluation starts with the stake reset to the base stake, whatever the stake
  was before (the first event reports it), and after a lost initial phase the stake of the
  martingale phase is the base stake times the martingale factor; it is not computed from the
  stake the bot had before.
\<close>

theorem stake_reset_and_martingale_stake:
  "\<exists>s' result evs.
     evaluate_signal_result self pair direction t1 raw1 t2 raw2 = Inr (s', result, evs) \<and>
     hd evs = Initial_trade pair direction (base_stake self) \<and>
     (check_trade_result raw1 direction t1 \<noteq> Inr ''WIN'' \<longrightarrow>
        martingale_entries evs = [base_stake self * martingale_factor self] \<and>
        Mtg_message pair direction (base_stake self * martingale_factor self) \<in> set evs) \<and>
     (check_trade_result raw1 direction t1 = Inr ''WIN'' \<longrightarrow> martingale_entries evs = [])"
  using check_trade_result_cases [of raw1 direction t1]
    check_trade_result_cases [of raw2 direction t2]
  by (auto simp: evaluate_signal_result_paths martingale_entries_def)

theorem stake_reset_and_martingale_stake_witness:
  "current_stake fresh_bot = 7 \<and> base_stake fresh_bot * martingale_factor fresh_bot = 2 \<and>
   check_trade_result (Some [rising_bar]) ''PUT'' 100 \<noteq> Inr ''WIN'' \<and>
   (\<exists>s' result evs.
      evaluate_signal_result fresh_bot ''BTCUSD_otc'' ''PUT'' 100 (Some [rising_bar]) 165
        (Some [falling_bar]) = Inr (s', result, evs) \<and>
      hd evs = Initial_trade ''BTCUSD_otc'' ''PUT'' (base_stake fresh_bot) \<and>
      martingale_entries evs = [base_stake fresh_bot * martingale_factor fresh_bot])"
  using stake_reset_and_martingale_stake [of fresh_bot "''BTCUSD_otc''" "''PUT''" 100
      "Some [rising_bar]" 165 "Some [falling_bar]"]
  unfolding evaluate_signal_result_mtg_win [OF check_rising_put check_falling_put]
  by (simp add: check_rising_put martingale_entries_def) (simp add: fresh_bot_def)

text \<open>
  Claim C2 says that every evaluation ends in an initial win, a martingale win or a loss. In
  the fixed variant \<^verbatim>\<open>evaluate_result\<close> returns \<^verbatim>\<open>"ERROR"\<close> when the first fetch gives no
  candles (lines 172 and 173), which is none of the three.
\<close>

theorem evaluate_result_error_outcome:
  "evaluate_result ''CALL'' None None = Inr (''ERROR'', [Sleep 60, Fetch 1]) \<and>
   ''ERROR'' \<noteq> ''WIN'' \<and> ''ERROR'' \<noteq> ''MG WIN'' \<and> ''ERROR'' \<noteq> ''LOSS''"
  by (simp add: evaluate_result_def get_candles_def)

text \<open>
  Claim C2, amended. \<^verbatim>\<open>evaluate_signal_result\<close> always completes with WIN, MTG WIN or LOSS;
  an initial win ends it after one phase and without a martingale entry, a lost initial phase
  is followed by exactly one martingale phase, and there are never more than two phases.
  \<^verbatim>\<open>evaluate_result\<close> always completes with WIN, MG WIN, LOSS or ERROR, where ERROR occurs
  exactly when the first fetch gives no candles; it has one phase after WIN or ERROR and two
  after MG WIN or LOSS, never more, and the first phase wins exactly when its candle wins.
\<close>

theorem evaluation_phases:
  "(\<exists>s' result evs.
      evaluate_signal_result self pair direction t1 raw1 t2 raw2 = Inr (s', result, evs) \<and>
      (result = ''WIN'' \<or> result = ''MTG WIN'' \<or> result = ''LOSS'') \<and>
      phases evs \<le> 2 \<and>
      (check_trade_result raw1 direction t1 = Inr ''WIN'' \<longrightarrow>
         result = ''WIN'' \<and> phases evs = 1 \<and> martingale_entries evs = []) \<and>
      (check_trade_result raw1 direction t1 \<noteq> Inr ''WIN'' \<longrightarrow>
         (result = ''MTG WIN'' \<or> result = ''LOSS'') \<and> phases evs = 2 \<and>
         length (martingale_entries evs) = 1)) \<and>
   (\<exists>result evs.
      evaluate_result direction raw1 raw2 = Inr (result, evs) \<and>
      (result = ''WIN'' \<or> result = ''MG WIN'' \<or> result = ''LOSS'' \<or> result = ''ERROR'') \<and>
      phases evs \<le> 2 \<and>
      (result = ''ERROR'' \<longleftrightarrow> get_candles raw1 1 = None) \<and>
      (result = ''WIN'' \<or> result = ''ERROR'' \<longrightarrow> phases evs = 1) \<and>
      (result = ''MG WIN'' \<or> result = ''LOSS'' \<longrightarrow> phases evs = 2) \<and>
      (\<forall>c cs. get_candles raw1 1 = Some (c # cs) \<longrightarrow>
         (result = ''WIN'' \<longleftrightarrow> candle_wins direction c)))"
proof (rule conjI)
  show "\<exists>s' result evs.
      evaluate_signal_result self pair direction t1 raw1 t2 raw2 = Inr (s', result, evs) \<and>
      (result = ''WIN'' \<or> result = ''MTG WIN'' \<or> result = ''LOSS'') \<and>
      phases evs \<le> 2 \<and>
      (check_trade_result raw1 direction t1 = Inr ''WIN'' \<longrightarrow>
         result = ''WIN'' \<and> phases evs = 1 \<and> martingale_entries evs = []) \<and>
      (check_trade_result raw1 direction t1 \<noteq> Inr ''WIN'' \<longrightarrow>
         (result = ''MTG WIN'' \<or> result = ''LOSS'') \<and> phases evs = 2 \<and>
         length (martingale_entries evs) = 1)"
    using check_trade_result_cases [of raw1 direction t1]
  proof
    assume w: "check_trade_result raw1 direction t1 = Inr ''WIN''"
    show ?thesis
      unfolding evaluate_signal_result_win [OF w] using w
      by (simp add: phases_def martingale_entries_def)
  next
    assume l: "check_trade_result raw1 direction t1 = Inr ''LOSS''"
    from check_trade_result_cases [of raw2 direction t2] show ?thesis
    proof
      assume w2: "check_trade_result raw2 direction t2 = Inr ''WIN''"
      show ?thesis
        unfolding evaluate_signal_result_mtg_win [OF l w2] using l
        by (simp add: phases_def martingale_entries_def)
    next
      assume l2: "check_trade_result raw2 direction t2 = Inr ''LOSS''"
      show ?thesis
        unfolding evaluate_signal_result_loss [OF l l2] using l
        by (simp add: phases_def martingale_entries_def)
    qed
  qed
next
  show "\<exists>result evs.
      evaluate_result direction raw1 raw2 = Inr (result, evs) \<and>
      (result = ''WIN'' \<or> result = ''MG WIN'' \<or> result = ''LOSS'' \<or> result = ''ERROR'') \<and>
      phases evs \<le> 2 \<and>
      (result = ''ERROR'' \<longleftrightarrow> get_candles raw1 1 = None) \<and>
      (result = ''WIN'' \<or> result = ''ERROR'' \<longrightarrow> phases evs = 1) \<and>
      (result = ''MG WIN'' \<or> result = ''LOSS'' \<longrightarrow> phases evs = 2) \<and>
      (\<forall>c cs. get_candles raw1 1 = Some (c # cs) \<longrightarrow>
         (result = ''WIN'' \<longleftrightarrow> candle_wins direction c))"
    using evaluate_result_cases [of raw1 direction raw2]
    by (elim disjE exE conjE) (simp_all add: phases_def)
qed

theorem evaluation_phases_witness:
  "check_trade_result (Some [rising_bar]) ''PUT'' 100 \<noteq> Inr ''WIN'' \<and>
   (\<exists>s' evs.
      evaluate_signal_result fresh_bot ''BTCUSD_otc'' ''PUT'' 100 (Some [rising_bar]) 165
        (Some [falling_bar]) = Inr (s', ''MTG WIN'', evs) \<and>
      phases evs = 2 \<and> length (martingale_entries evs) = 1) \<and>
   get_candles (Some [rising_bar]) 1 = Some [rising_bar] \<and>
   \<not> candle_wins ''PUT'' rising_bar \<and>
   (\<exists>evs. evaluate_result ''PUT'' (Some [rising_bar]) (Some [falling_bar]) = Inr (''MG WIN'', evs) \<and>
      phases evs = 2)"
proof -
  have g1: "get_candles (Some [rising_bar]) 1 = Some [rising_bar]"
    and g2: "get_candles (Some [falling_bar]) 1 = Some [falling_bar]"
    by (simp_all add: get_candles_def last_n_def)
  have nw: "\<not> candle_wins ''PUT'' rising_bar" and w2: "candle_wins ''PUT'' falling_bar"
    by (simp_all add: candle_wins_def rising_bar_def falling_bar_def)
  show ?thesis
    using evaluation_phases [of fresh_bot "''BTCUSD_otc''" "''PUT''" 100 "Some [rising_bar]" 165
      "Some [falling_bar]"]
    unfolding evaluate_signal_result_mtg_win [OF check_rising_put check_falling_put]
      evaluate_result_second [OF g1 nw g2]
    using g1 nw w2 by (simp add: check_rising_put)
qed

text \<open>
  Claim C3. On the matched bar \<^verbatim>\<open>check_trade_result\<close> returns WIN for CALL exactly when the
  close is above the open and for PUT exactly when the close is below the open, so a bar
  whose close equals its open is a LOSS for both. \<^verbatim>\<open>evaluate_result\<close> applies the same test
  to the candle of the first phase and, when that one does not win, to the candle of the
  second phase.
\<close>

theorem win_classification:
  assumes "get_candles_for_pair raw 2 = Some candles"
    and "find_trade_candle candles entry = Inr bar"
    and "get_candles raw1 1 = Some (c1 # r1)"
    and "get_candles raw2 1 = Some (c2 # r2)"
  shows "check_trade_result raw ''CALL'' entry =
           Inr (if close bar > open_price bar then ''WIN'' else ''LOSS'') \<and>
         check_trade_result raw ''PUT'' entry =
           Inr (if close bar < open_price bar then ''WIN'' else ''LOSS'') \<and>
         (close bar = open_price bar \<longrightarrow>
            check_trade_result raw ''CALL'' entry = Inr ''LOSS'' \<and>
            check_trade_result raw ''PUT'' entry = Inr ''LOSS'') \<and>
         (\<exists>evs. evaluate_result ''CALL'' raw1 raw2 =
            Inr (if close c1 > open_price c1 then ''WIN''
                 else if close c2 > open_price c2 then ''MG WIN'' else ''LOSS'', evs)) \<and>
         (\<exists>evs. evaluate_result ''PUT'' raw1 raw2 =
            Inr (if close c1 < open_price c1 then ''WIN''
                 else if close c2 < open_price c2 then ''MG WIN'' else ''LOSS'', evs))"
proof -
  have call: "check_trade_result raw ''CALL'' entry =
           Inr (if close bar > open_price bar then ''WIN'' else ''LOSS'')"
    and put: "check_trade_result raw ''PUT'' entry =
           Inr (if close bar < open_price bar then ''WIN'' else ''LOSS'')"
    by (simp_all add: check_trade_result_fetched [OF assms(1,2)])
  have tie: "close bar = open_price bar \<longrightarrow>
            check_trade_result raw ''CALL'' entry = Inr ''LOSS'' \<and>
            check_trade_result raw ''PUT'' entry = Inr ''LOSS''"
    by (simp add: call put)
  have fc: "\<exists>evs. evaluate_result ''CALL'' raw1 raw2 =
            Inr (if close c1 > open_price c1 then ''WIN''
                 else if close c2 > open_price c2 then ''MG WIN'' else ''LOSS'', evs)"
  proof (cases "candle_wins ''CALL'' c1")
    case True
    then show ?thesis
      by (simp add: evaluate_result_win [OF assms(3) True]) (simp add: candle_wins_def)
  next
    case False
    then show ?thesis
      by (simp add: evaluate_result_second [OF assms(3) False assms(4)])
         (simp add: candle_wins_def)
  qed
  have fp: "\<exists>evs. evaluate_result ''PUT'' raw1 raw2 =
            Inr (if close c1 < open_price c1 then ''WIN''
                 else if close c2 < open_price c2 then ''MG WIN'' else ''LOSS'', evs)"
  proof (cases "candle_wins ''PUT'' c1")
    case True
    then show ?thesis
      by (simp add: evaluate_result_win [OF assms(3) True]) (simp add: candle_wins_def)
  next
    case False
    then show ?thesis
      by (simp add: evaluate_result_second [OF assms(3) False assms(4)])
         (simp add: candle_wins_def)
  qed
  from call put tie fc fp show ?thesis by blast
qed

theorem win_classification_witness:
  "get_candles_for_pair (Some [rising_bar]) 2 = Some [rising_bar] \<and>
   find_trade_candle [rising_bar] 100 = Inr rising_bar \<and>
   get_candles (Some [rising_bar]) 1 = Some [rising_bar] \<and>
   get_candles (Some [falling_bar]) 1 = Some [falling_bar] \<and>
   check_trade_result (Some [rising_bar]) ''CALL'' 100 = Inr ''WIN'' \<and>
   check_trade_result (Some [rising_bar]) ''PUT'' 100 = Inr ''LOSS'' \<and>
   (\<exists>evs. evaluate_result ''CALL'' (Some [rising_bar]) (Some [falling_bar]) = Inr (''WIN'', evs)) \<and>
   (\<exists>evs. evaluate_result ''PUT'' (Some [rising_bar]) (Some [falling_bar]) = Inr (''MG WIN'', evs))"
proof -
  have g: "get_candles_for_pair (Some [rising_bar]) 2 = Some [rising_bar]"
    by (simp add: get_candles_for_pair_def last_n_def)
  have f: "find_trade_candle [rising_bar] 100 = Inr rising_bar"
    by (simp add: find_trade_candle_def rising_bar_def)
  have g1: "get_candles (Some [rising_bar]) 1 = Some [rising_bar]"
    and g2: "get_candles (Some [falling_bar]) 1 = Some [falling_bar]"
    by (simp_all add: get_candles_def last_n_def)
  have up: "close rising_bar > open_price rising_bar"
    and down: "close falling_bar < open_price falling_bar"
    by (simp_all add: rising_bar_def falling_bar_def)
  from win_classification [OF g f g1 g2] g f g1 g2 up down show ?thesis
    by simp
qed

text \<open>
  Claim C8 says that a failed fetch is scored as a loss in either phase of either variant. In
  \<^verbatim>\<open>evaluate_result\<close> a failed first fetch returns \<^verbatim>\<open>"ERROR"\<close> at once, while a first phase
  that is lost goes on to the second candle, which can still win.
\<close>

theorem fetch_failure_not_scored_as_loss:
  "get_candles None 1 = None \<and>
   evaluate_result ''CALL'' None (Some [rising_bar]) = Inr (''ERROR'', [Sleep 60, Fetch 1]) \<and>
   evaluate_result ''CALL'' (Some [falling_bar]) (Some [rising_bar]) =
     Inr (''MG WIN'', [Sleep 60, Fetch 1, Sleep 60, Fetch 1])"
  by (simp add: evaluate_result_def get_candles_def last_n_def first_def and_then_def
      candle_wins_def rising_bar_def falling_bar_def)

text \<open>
  Claim C8, amended. \<^verbatim>\<open>check_trade_result\<close> returns LOSS when no candles are fetched, so in
  \<^verbatim>\<open>evaluate_signal_result\<close> a failed first fetch leads to the martingale phase and two failed
  fetches to the result LOSS and one more counted loss. In \<^verbatim>\<open>evaluate_result\<close> a failed first
  fetch ends the evaluation with ERROR after one phase, and a failed second fetch after a lost
  first phase gives LOSS. Neither variant repeats a fetch: there are at most two phases, each
  with one wait, of 65 seconds in the martingale variant and of 60 seconds in the fixed one.
\<close>

theorem fetch_failure_policy:
  "(get_candles_for_pair raw 2 = None \<longrightarrow> check_trade_result raw direction t = Inr ''LOSS'') \<and>
   (\<exists>s' result evs.
      evaluate_signal_result self pair direction t1 raw1 t2 raw2 = Inr (s', result, evs) \<and>
      phases evs \<le> 2 \<and> waits evs = replicate (phases evs) 65 \<and>
      (get_candles_for_pair raw1 2 = None \<longrightarrow> phases evs = 2 \<and> result \<noteq> ''WIN'') \<and>
      (get_candles_for_pair raw1 2 = None \<and> get_candles_for_pair raw2 2 = None \<longrightarrow>
         result = ''LOSS'' \<and> loss_count s' = loss_count self + 1)) \<and>
   (\<exists>result evs.
      evaluate_result direction raw1 raw2 = Inr (result, evs) \<and>
      phases evs \<le> 2 \<and> waits evs = replicate (phases evs) 60 \<and>
      (get_candles raw1 1 = None \<longrightarrow> result = ''ERROR'' \<and> phases evs = 1) \<and>
      (\<forall>c cs. get_candles raw1 1 = Some (c # cs) \<and> \<not> candle_wins direction c \<and>
         get_candles raw2 1 = None \<longrightarrow> result = ''LOSS'' \<and> phases evs = 2))"
proof (intro conjI)
  show "get_candles_for_pair raw 2 = None \<longrightarrow> check_trade_result raw direction t = Inr ''LOSS''"
    by (simp add: check_trade_result_failed)
next
  have two: "replicate 2 (65::nat) = [65, 65]" by (simp add: numeral_2_eq_2)
  show "\<exists>s' result evs.
      evaluate_signal_result self pair direction t1 raw1 t2 raw2 = Inr (s', result, evs) \<and>
      phases evs \<le> 2 \<and> waits evs = replicate (phases evs) 65 \<and>
      (get_candles_for_pair raw1 2 = None \<longrightarrow> phases evs = 2 \<and> result \<noteq> ''WIN'') \<and>
      (get_candles_for_pair raw1 2 = None \<and> get_candles_for_pair raw2 2 = None \<longrightarrow>
         result = ''LOSS'' \<and> loss_count s' = loss_count self + 1)"
    using check_trade_result_cases [of raw1 direction t1]
  proof
    assume w: "check_trade_result raw1 direction t1 = Inr ''WIN''"
    then have "get_candles_for_pair raw1 2 \<noteq> None"
      using check_trade_result_failed [of raw1 direction t1] by auto
    then show ?thesis
      unfolding evaluate_signal_result_win [OF w]
      by (simp add: phases_def waits_def)
  next
    assume l: "check_trade_result raw1 direction t1 = Inr ''LOSS''"
    from check_trade_result_cases [of raw2 direction t2] show ?thesis
    proof
      assume w2: "check_trade_result raw2 direction t2 = Inr ''WIN''"
      then have "get_candles_for_pair raw2 2 \<noteq> None"
        using check_trade_result_failed [of raw2 direction t2] by auto
      then show ?thesis
        unfolding evaluate_signal_result_mtg_win [OF l w2]
        by (simp add: phases_def waits_def two)
    next
      assume l2: "check_trade_result raw2 direction t2 = Inr ''LOSS''"
      show ?thesis
        unfolding evaluate_signal_result_loss [OF l l2]
        by (simp add: phases_def waits_def two)
    qed
  qed
next
  have two: "replicate 2 (60::nat) = [60, 60]" by (simp add: numeral_2_eq_2)
  show "\<exists>result evs.
      evaluate_result direction raw1 raw2 = Inr (result, evs) \<and>
      phases evs \<le> 2 \<and> waits evs = replicate (phases evs) 60 \<and>
      (get_candles raw1 1 = None \<longrightarrow> result = ''ERROR'' \<and> phases evs = 1) \<and>
      (\<forall>c cs. get_candles raw1 1 = Some (c # cs) \<and> \<not> candle_wins direction c \<and>
         get_candles raw2 1 = None \<longrightarrow> result = ''LOSS'' \<and> phases evs = 2)"
  proof (cases "get_candles raw1 1")
    case None
    then show ?thesis
      by (simp add: evaluate_result_error phases_def waits_def)
  next
    case (Some xs)
    from get_candles_Some [OF Some] obtain c cs where "xs = c # cs" by (cases xs) simp_all
    with Some have g1: "get_candles raw1 1 = Some (c # cs)" by simp
    show ?thesis
    proof (cases "candle_wins direction c")
      case True
      with g1 show ?thesis
        by (simp add: evaluate_result_win phases_def waits_def)
    next
      case False
      show ?thesis
      proof (cases "get_candles raw2 1")
        case None
        with g1 False show ?thesis
          by (simp add: evaluate_result_second_failed phases_def waits_def two)
      next
        case (Some ys)
        from get_candles_Some [OF Some] obtain c2 cs2 where "ys = c2 # cs2" by (cases ys) simp_all
        with Some have g2: "get_candles raw2 1 = Some (c2 # cs2)" by simp
        show ?thesis
          unfolding evaluate_result_second [OF g1 False g2] using g1 g2
          by (simp add: phases_def waits_def two)
      qed
    qed
  qed
qed

theorem fetch_failure_policy_witness:
  "get_candles_for_pair None 2 = None \<and> get_candles None 1 = None \<and>
   check_trade_result None ''CALL'' 100 = Inr ''LOSS'' \<and>
   (\<exists>s' evs. evaluate_signal_result fresh_bot ''BTCUSD_otc'' ''CALL'' 100 None 165 None =
      Inr (s', ''LOSS'', evs) \<and> phases evs = 2 \<and> waits evs = [65, 65] \<and>
      loss_count s' = loss_count fresh_bot + 1) \<and>
   (\<exists>evs. evaluate_result ''CALL'' None None = Inr (''ERROR'', evs) \<and> phases evs = 1 \<and>
      waits evs = [60]) \<and>
   get_candles (Some [falling_bar]) 1 = Some [falling_bar] \<and> \<not> candle_wins ''CALL'' falling_bar \<and>
   (\<exists>evs. evaluate_result ''CALL'' (Some [falling_bar]) None = Inr (''LOSS'', evs) \<and>
      phases evs = 2)"
proof -
  have n2: "get_candles_for_pair None 2 = None" and n1: "get_candles None 1 = None"
    by (simp_all add: get_candles_for_pair_def get_candles_def)
  have l: "check_trade_result None ''CALL'' 100 = Inr ''LOSS''"
    and l2: "check_trade_result None ''CALL'' 165 = Inr ''LOSS''"
    by (simp_all add: check_trade_result_failed [OF n2])
  have g1: "get_candles (Some [falling_bar]) 1 = Some [falling_bar]"
    by (simp add: get_candles_def last_n_def)
  have nw: "\<not> candle_wins ''CALL'' falling_bar"
    by (simp add: candle_wins_def falling_bar_def)
  have a: "\<exists>s' evs. evaluate_signal_result fresh_bot ''BTCUSD_otc'' ''CALL'' 100 None 165 None =
      Inr (s', ''LOSS'', evs) \<and> phases evs = 2 \<and> waits evs = [65, 65] \<and>
      loss_count s' = loss_count fresh_bot + 1"
    using fetch_failure_policy [of None "''CALL''" 100 fresh_bot "''BTCUSD_otc''" 100 None 165 None]
    unfolding evaluate_signal_result_loss [OF l l2]
    by (simp add: phases_def waits_def)
  have b: "\<exists>evs. evaluate_result ''CALL'' None None = Inr (''ERROR'', evs) \<and> phases evs = 1 \<and>
      waits evs = [60]"
    by (simp add: evaluate_result_error [OF n1] phases_def waits_def)
  have c: "\<exists>evs. evaluate_result ''CALL'' (Some [falling_bar]) None = Inr (''LOSS'', evs) \<and>
      phases evs = 2"
    by (simp add: evaluate_result_second_failed [OF g1 nw n1] phases_def)
  from n2 n1 l a b c g1 nw show ?thesis by blast
qed

text \<open>
  Claim C9. \<^verbatim>\<open>check_trade_result\<close> judges one of the fetched bars: when some bar has a
  timestamp within 60 seconds of the entry timestamp it is the first such bar in the order of
  the fetched sequence, and otherwise it is the last bar of the sequence.
\<close>

theorem trade_candle_selection:
  assumes "get_candles_for_pair raw 2 = Some candles"
  shows "\<exists>bar. find_trade_candle candles e = Inr bar \<and>
           check_trade_result raw direction e =
             Inr (if (if direction = ''CALL'' then close bar > open_price bar
                      else close bar < open_price bar) then ''WIN'' else ''LOSS'') \<and>
           (if \<exists>c\<in>set candles. \<bar>timestamp c - e\<bar> \<le> 60
            then \<exists>i<length candles. bar = candles ! i \<and> \<bar>timestamp bar - e\<bar> \<le> 60 \<and>
                   (\<forall>j<i. \<not> \<bar>timestamp (candles ! j) - e\<bar> \<le> 60)
            else bar = last candles)"
proof (cases "find (\<lambda>candle. \<bar>timestamp candle - e\<bar> \<le> 60) candles")
  case None
  from assms have ne: "candles \<noteq> []" by (rule get_candles_for_pair_Some)
  from None have no: "\<not> (\<exists>c\<in>set candles. \<bar>timestamp c - e\<bar> \<le> 60)"
    by (auto simp: find_None_iff)
  from None ne have f: "find_trade_candle candles e = Inr (last candles)"
    by (simp add: find_trade_candle_def from_end_def last_conv_nth Suc_le_eq)
  from check_trade_result_fetched [OF assms f] f no show ?thesis by simp
next
  case (Some bar)
  then have f: "find_trade_candle candles e = Inr bar"
    by (simp add: find_trade_candle_def)
  from Some obtain i where i: "i < length candles" "\<bar>timestamp (candles ! i) - e\<bar> \<le> 60"
    "bar = candles ! i" "\<forall>j<i. \<not> \<bar>timestamp (candles ! j) - e\<bar> \<le> 60"
    unfolding find_Some_iff by blast
  then have ex: "\<exists>c\<in>set candles. \<bar>timestamp c - e\<bar> \<le> 60"
    using nth_mem by blast
  from i have sel: "\<exists>i<length candles. bar = candles ! i \<and> \<bar>timestamp bar - e\<bar> \<le> 60 \<and>
                   (\<forall>j<i. \<not> \<bar>timestamp (candles ! j) - e\<bar> \<le> 60)"
    by blast
  from check_trade_result_fetched [OF assms f] f ex sel show ?thesis by simp
qed

theorem trade_candle_selection_witness:
  "get_candles_for_pair (Some [rising_bar, falling_bar]) 2 = Some [rising_bar, falling_bar] \<and>
   \<not> \<bar>timestamp rising_bar - 165\<bar> \<le> 60 \<and> \<bar>timestamp falling_bar - 165\<bar> \<le> 60 \<and>
   find_trade_candle [rising_bar, falling_bar] 165 = Inr falling_bar \<and>
   check_trade_result (Some [rising_bar, falling_bar]) ''CALL'' 165 = Inr ''LOSS''"
proof -
  have g: "get_candles_for_pair (Some [rising_bar, falling_bar]) 2 = Some [rising_bar, falling_bar]"
    by (simp add: get_candles_for_pair_def last_n_def)
  have ts: "\<not> \<bar>timestamp rising_bar - 165\<bar> \<le> 60" "\<bar>timestamp falling_bar - 165\<bar> \<le> 60"
    by (simp_all add: rising_bar_def falling_bar_def)
  then have f: "find_trade_candle [rising_bar, falling_bar] 165 = Inr falling_bar"
    by (simp add: find_trade_candle_def)
  have down: "\<not> close falling_bar > open_price falling_bar"
    by (simp add: falling_bar_def)
  from trade_candle_selection [OF g, of 165 "''CALL''"] g ts f down show ?thesis
    by auto
qed

end
